theory Spec2Isabelle
  imports Main "HOL-Library.Word"
begin

unbundle bit_operations_syntax

section \<open>Errors\<close>

text \<open>
  Every exception that the module can raise is a value of \<open>error\<close>. The constructors carry
  the names the specification gives to the failures; the Python exception behind each one:
  \<^item> \<open>InvalidTag\<close>: the \<^verbatim>\<open>ValueError\<close> of an Enum lookup by value
    (\<^verbatim>\<open>SerializationTag(tag)\<close>, \<^verbatim>\<open>ArrayBufferViewSubtag(...)\<close>) on a value that no member has;
  \<^item> \<open>UnsupportedVersion v\<close>: the \<^verbatim>\<open>AssertionError\<close> of \<^verbatim>\<open>assert value <= 9\<close> in
    \<^verbatim>\<open>Reader.read_token\<close>, with the offending value;
  \<^item> \<open>NotImplemented msg\<close>: the \<^verbatim>\<open>NotImplementedError\<close> of both dispatchers, with its message;
  \<^item> \<open>ShortRead\<close>: the byte source could not supply the bytes asked for;
  \<^item> \<open>InvalidPayload\<close>: the \<^verbatim>\<open>AssertionError\<close> of \<^verbatim>\<open>assert len(value) > 1\<close> in
    \<^verbatim>\<open>Writer.write_token\<close> and of \<^verbatim>\<open>assert len(b) == 2\<close> in \<^verbatim>\<open>SwapBytes.decode\<close>;
  \<^item> \<open>IndexError\<close>: indexing an empty string (\<^verbatim>\<open>result[-1]\<close>);
  \<^item> \<open>UnpackError\<close>: the \<^verbatim>\<open>ValueError\<close> of unpacking \<^verbatim>\<open>token_args\<close> into the wrong
    number of names;
  \<^item> \<open>TypeError\<close>: an operation applied to a value of the wrong Python type;
  \<^item> \<open>Unmodelled\<close>: the call leaves what is modelled here (a negative number given to the
    varint encoder, a non-float given to \<^verbatim>\<open>write_double\<close>).
\<close>

datatype error =
    InvalidTag
  | UnsupportedVersion int
  | NotImplemented string
  | ShortRead
  | InvalidPayload
  | IndexError
  | UnpackError
  | TypeError
  | Unmodelled

section \<open>The tag vocabulary\<close>

text \<open>
  The body of \<^verbatim>\<open>class SerializationTag(Enum)\<close>, as written: 46 name/value declarations, in
  source order. The values are one-byte strings.
\<close>

definition SerializationTag_class :: "(string \<times> string) list" where
  "SerializationTag_class =
    [(''INVALID'', ''!''),
     (''PADDING'', ''@''),
     (''UNDEFINED'', ''_''),
     (''NULL'', ''0''),
     (''TRUE'', ''T''),
     (''FALSE'', ''F''),
     (''STRING'', ''S''),
     (''STRING_UCHAR'', ''c''),
     (''INT32'', ''I''),
     (''UINT32'', ''U''),
     (''DATE'', ''D''),
     (''MESSAGE_PORT'', ''M''),
     (''NUMBER'', ''N''),
     (''BLOB'', ''b''),
     (''BLOB_INDEX'', ''i''),
     (''FILE'', ''f''),
     (''FILE_INDEX'', ''f''),
     (''DOM_FILE_SYSTEM'', ''d''),
     (''FILE_LIST'', ''l''),
     (''FILE_LIST_INDEX'', ''L''),
     (''IMAGE_DATA'', ''#''),
     (''OBJECT'', ''{''),
     (''SPARSE_ARRAY'', ''@''),
     (''DENSE_ARRAY'', ''$''),
     (''REG_EXP'', ''R''),
     (''ARRAY_BUFFER'', ''B''),
     (''ARRAY_BUFFER_TRANSFER'', ''t''),
     (''IMAGE_BITMAP_TRANSFER'', ''G''),
     (''ARRAY_BUFFER_VIEW'', ''V''),
     (''SHARED_ARRAY_BUFFER_TRANSFER'', ''u''),
     (''CRYPTO_KEY'', ''K''),
     (''OBJECT_REFERENCE'', ''^''),
     (''GENERATE_FRESH_OBJECT'', ''o''),
     (''GENERATE_FRESH_SPARSE_ARRAY'', ''a''),
     (''GENERATE_FRESH_DENSE_ARRAY'', ''A''),
     (''REFERENCE_COUNT'', ''?''),
     (''STRING_OBJECT'', ''s''),
     (''NUMBER_OBJECT'', ''n''),
     (''TRUE_OBJECT'', ''y''),
     (''FALSE_OBJECT'', ''x''),
     (''COMPOSITOR_PROXY'', ''C''),
     (''MAP'', '':''),
     (''SET'', '',''),
     (''GENERATE_FRESH_MAP'', '';''),
     (''GENERATE_FRESH_SET'', [CHR 0x27]),
     (''VERSION'', [CHR 0xFF])]"

text \<open>
  An Enum class has one member for each distinct value: a name declared with a value that
  another declaration has denotes the same member as that other name. The values
  \<^verbatim>\<open>@\<close> and \<^verbatim>\<open>f\<close> are declared twice, so the class has 44 members. The member
  with the value \<^verbatim>\<open>@\<close> is written \<open>PADDING\<close>, as the module refers to it in
  \<^verbatim>\<open>NOOP_TAGS\<close>; the member with the value \<^verbatim>\<open>f\<close>, which the module never
  refers to, is written \<open>FILE\<close>.
\<close>

datatype SerializationTag =
    INVALID
  | PADDING
  | UNDEFINED
  | NULL
  | TRUE
  | FALSE
  | STRING
  | STRING_UCHAR
  | INT32
  | UINT32
  | DATE
  | MESSAGE_PORT
  | NUMBER
  | BLOB
  | BLOB_INDEX
  | FILE
  | DOM_FILE_SYSTEM
  | FILE_LIST
  | FILE_LIST_INDEX
  | IMAGE_DATA
  | OBJECT
  | DENSE_ARRAY
  | REG_EXP
  | ARRAY_BUFFER
  | ARRAY_BUFFER_TRANSFER
  | IMAGE_BITMAP_TRANSFER
  | ARRAY_BUFFER_VIEW
  | SHARED_ARRAY_BUFFER_TRANSFER
  | CRYPTO_KEY
  | OBJECT_REFERENCE
  | GENERATE_FRESH_OBJECT
  | GENERATE_FRESH_SPARSE_ARRAY
  | GENERATE_FRESH_DENSE_ARRAY
  | REFERENCE_COUNT
  | STRING_OBJECT
  | NUMBER_OBJECT
  | TRUE_OBJECT
  | FALSE_OBJECT
  | COMPOSITOR_PROXY
  | MAP
  | SET
  | GENERATE_FRESH_MAP
  | GENERATE_FRESH_SET
  | VERSION

text \<open>
  The attributes \<^verbatim>\<open>.name\<close> and \<^verbatim>\<open>.value\<close> of a member. A member declared under
  one name has that name. For the two members declared under two names, which of the two
  \<^verbatim>\<open>.name\<close> reports is decided inside the \<^verbatim>\<open>enum\<close> module, which is imported and not
  part of the repository; \<open>tag_name\<close> gives the one declared first.
\<close>

fun tag_name :: "SerializationTag \<Rightarrow> string" where
  "tag_name INVALID = ''INVALID''"
| "tag_name PADDING = ''PADDING''"
| "tag_name UNDEFINED = ''UNDEFINED''"
| "tag_name NULL = ''NULL''"
| "tag_name TRUE = ''TRUE''"
| "tag_name FALSE = ''FALSE''"
| "tag_name STRING = ''STRING''"
| "tag_name STRING_UCHAR = ''STRING_UCHAR''"
| "tag_name INT32 = ''INT32''"
| "tag_name UINT32 = ''UINT32''"
| "tag_name DATE = ''DATE''"
| "tag_name MESSAGE_PORT = ''MESSAGE_PORT''"
| "tag_name NUMBER = ''NUMBER''"
| "tag_name BLOB = ''BLOB''"
| "tag_name BLOB_INDEX = ''BLOB_INDEX''"
| "tag_name FILE = ''FILE''"
| "tag_name DOM_FILE_SYSTEM = ''DOM_FILE_SYSTEM''"
| "tag_name FILE_LIST = ''FILE_LIST''"
| "tag_name FILE_LIST_INDEX = ''FILE_LIST_INDEX''"
| "tag_name IMAGE_DATA = ''IMAGE_DATA''"
| "tag_name OBJECT = ''OBJECT''"
| "tag_name DENSE_ARRAY = ''DENSE_ARRAY''"
| "tag_name REG_EXP = ''REG_EXP''"
| "tag_name ARRAY_BUFFER = ''ARRAY_BUFFER''"
| "tag_name ARRAY_BUFFER_TRANSFER = ''ARRAY_BUFFER_TRANSFER''"
| "tag_name IMAGE_BITMAP_TRANSFER = ''IMAGE_BITMAP_TRANSFER''"
| "tag_name ARRAY_BUFFER_VIEW = ''ARRAY_BUFFER_VIEW''"
| "tag_name SHARED_ARRAY_BUFFER_TRANSFER = ''SHARED_ARRAY_BUFFER_TRANSFER''"
| "tag_name CRYPTO_KEY = ''CRYPTO_KEY''"
| "tag_name OBJECT_REFERENCE = ''OBJECT_REFERENCE''"
| "tag_name GENERATE_FRESH_OBJECT = ''GENERATE_FRESH_OBJECT''"
| "tag_name GENERATE_FRESH_SPARSE_ARRAY = ''GENERATE_FRESH_SPARSE_ARRAY''"
| "tag_name GENERATE_FRESH_DENSE_ARRAY = ''GENERATE_FRESH_DENSE_ARRAY''"
| "tag_name REFERENCE_COUNT = ''REFERENCE_COUNT''"
| "tag_name STRING_OBJECT = ''STRING_OBJECT''"
| "tag_name NUMBER_OBJECT = ''NUMBER_OBJECT''"
| "tag_name TRUE_OBJECT = ''TRUE_OBJECT''"
| "tag_name FALSE_OBJECT = ''FALSE_OBJECT''"
| "tag_name COMPOSITOR_PROXY = ''COMPOSITOR_PROXY''"
| "tag_name MAP = ''MAP''"
| "tag_name SET = ''SET''"
| "tag_name GENERATE_FRESH_MAP = ''GENERATE_FRESH_MAP''"
| "tag_name GENERATE_FRESH_SET = ''GENERATE_FRESH_SET''"
| "tag_name VERSION = ''VERSION''"

fun tag_value :: "SerializationTag \<Rightarrow> string" where
  "tag_value INVALID = ''!''"
| "tag_value PADDING = ''@''"
| "tag_value UNDEFINED = ''_''"
| "tag_value NULL = ''0''"
| "tag_value TRUE = ''T''"
| "tag_value FALSE = ''F''"
| "tag_value STRING = ''S''"
| "tag_value STRING_UCHAR = ''c''"
| "tag_value INT32 = ''I''"
| "tag_value UINT32 = ''U''"
| "tag_value DATE = ''D''"
| "tag_value MESSAGE_PORT = ''M''"
| "tag_value NUMBER = ''N''"
| "tag_value BLOB = ''b''"
| "tag_value BLOB_INDEX = ''i''"
| "tag_value FILE = ''f''"
| "tag_value DOM_FILE_SYSTEM = ''d''"
| "tag_value FILE_LIST = ''l''"
| "tag_value FILE_LIST_INDEX = ''L''"
| "tag_value IMAGE_DATA = ''#''"
| "tag_value OBJECT = ''{''"
| "tag_value DENSE_ARRAY = ''$''"
| "tag_value REG_EXP = ''R''"
| "tag_value ARRAY_BUFFER = ''B''"
| "tag_value ARRAY_BUFFER_TRANSFER = ''t''"
| "tag_value IMAGE_BITMAP_TRANSFER = ''G''"
| "tag_value ARRAY_BUFFER_VIEW = ''V''"
| "tag_value SHARED_ARRAY_BUFFER_TRANSFER = ''u''"
| "tag_value CRYPTO_KEY = ''K''"
| "tag_value OBJECT_REFERENCE = ''^''"
| "tag_value GENERATE_FRESH_OBJECT = ''o''"
| "tag_value GENERATE_FRESH_SPARSE_ARRAY = ''a''"
| "tag_value GENERATE_FRESH_DENSE_ARRAY = ''A''"
| "tag_value REFERENCE_COUNT = ''?''"
| "tag_value STRING_OBJECT = ''s''"
| "tag_value NUMBER_OBJECT = ''n''"
| "tag_value TRUE_OBJECT = ''y''"
| "tag_value FALSE_OBJECT = ''x''"
| "tag_value COMPOSITOR_PROXY = ''C''"
| "tag_value MAP = '':''"
| "tag_value SET = '',''"
| "tag_value GENERATE_FRESH_MAP = '';''"
| "tag_value GENERATE_FRESH_SET = [CHR 0x27]"
| "tag_value VERSION = [CHR 0xFF]"

text \<open>The members in definition order (what iterating over the class yields).\<close>

definition SerializationTag_members :: "SerializationTag list" where
  "SerializationTag_members =
    [INVALID, PADDING, UNDEFINED, NULL, TRUE, FALSE, STRING, STRING_UCHAR, INT32, UINT32,
     DATE, MESSAGE_PORT, NUMBER, BLOB, BLOB_INDEX, FILE, DOM_FILE_SYSTEM, FILE_LIST,
     FILE_LIST_INDEX, IMAGE_DATA, OBJECT, DENSE_ARRAY, REG_EXP, ARRAY_BUFFER,
     ARRAY_BUFFER_TRANSFER, IMAGE_BITMAP_TRANSFER, ARRAY_BUFFER_VIEW,
     SHARED_ARRAY_BUFFER_TRANSFER, CRYPTO_KEY, OBJECT_REFERENCE, GENERATE_FRESH_OBJECT,
     GENERATE_FRESH_SPARSE_ARRAY, GENERATE_FRESH_DENSE_ARRAY, REFERENCE_COUNT, STRING_OBJECT,
     NUMBER_OBJECT, TRUE_OBJECT, FALSE_OBJECT, COMPOSITOR_PROXY, MAP, SET, GENERATE_FRESH_MAP,
     GENERATE_FRESH_SET, VERSION]"

text \<open>
  \<^verbatim>\<open>SerializationTag(v)\<close>: the lookup of a member by value. It raises \<^verbatim>\<open>ValueError\<close>
  when no member has the value.
\<close>

definition SerializationTag_call :: "string \<Rightarrow> error + SerializationTag" where
  "SerializationTag_call v =
     (case find (\<lambda>t. tag_value t = v) SerializationTag_members of
        None \<Rightarrow> Inl InvalidTag
      | Some t \<Rightarrow> Inr t)"

text \<open>The body of \<^verbatim>\<open>class ArrayBufferViewSubtag(Enum)\<close>: ten members, no aliases.\<close>

datatype ArrayBufferViewSubtag =
    BYTE_ARRAY
  | UNSIGNED_BYTE_ARRAY
  | UNSIGNED_BYTE_CLAMPED_ARRAY
  | SHORT_ARRAY
  | UNSIGNED_SHORT_ARRAY
  | INT_ARRAY
  | UNSIGNED_INT_ARRAY
  | FLOAT_ARRAY
  | DOUBLE_ARRAY
  | DATA_VIEW

fun subtag_value :: "ArrayBufferViewSubtag \<Rightarrow> string" where
  "subtag_value BYTE_ARRAY = ''b''"
| "subtag_value UNSIGNED_BYTE_ARRAY = ''B''"
| "subtag_value UNSIGNED_BYTE_CLAMPED_ARRAY = ''C''"
| "subtag_value SHORT_ARRAY = ''w''"
| "subtag_value UNSIGNED_SHORT_ARRAY = ''W''"
| "subtag_value INT_ARRAY = ''d''"
| "subtag_value UNSIGNED_INT_ARRAY = ''D''"
| "subtag_value FLOAT_ARRAY = ''f''"
| "subtag_value DOUBLE_ARRAY = ''F''"
| "subtag_value DATA_VIEW = ''?''"

definition ArrayBufferViewSubtag_members :: "ArrayBufferViewSubtag list" where
  "ArrayBufferViewSubtag_members =
    [BYTE_ARRAY, UNSIGNED_BYTE_ARRAY, UNSIGNED_BYTE_CLAMPED_ARRAY, SHORT_ARRAY,
     UNSIGNED_SHORT_ARRAY, INT_ARRAY, UNSIGNED_INT_ARRAY, FLOAT_ARRAY, DOUBLE_ARRAY, DATA_VIEW]"

section \<open>ZigZag\<close>

text \<open>
  Python integers are unbounded, so \<^verbatim>\<open>value\<close> is an \<open>int\<close>; \<^verbatim>\<open><<\<close> is \<open>push_bit\<close>,
  \<^verbatim>\<open>>>\<close> is \<open>drop_bit\<close> (both round as Python does), \<^verbatim>\<open>~\<close> is \<open>NOT\<close>, and a number is
  true when it is not 0.
\<close>

definition ZigZag_encode :: "int \<Rightarrow> int" where
  "ZigZag_encode v =
     (if v AND push_bit 31 1 \<noteq> 0 then push_bit 1 (NOT v) + 1 else push_bit 1 v)"

definition ZigZag_decode :: "int \<Rightarrow> int" where
  "ZigZag_decode v =
     (if v AND 1 \<noteq> 0 then NOT (drop_bit 1 v) else drop_bit 1 v)"

section \<open>SwapBytes\<close>

text \<open>
  The two \<^verbatim>\<open>for i in xrange(0, len(data), 2)\<close> loops, with the loop variable and the
  accumulated \<^verbatim>\<open>result\<close> as arguments. The slice \<^verbatim>\<open>data[i:i+2]\<close> is
  \<open>take 2 (drop i data)\<close>; it is shorter than 2 only in the last round of an odd-length input.
\<close>

function SwapBytes_encode_loop :: "string \<Rightarrow> nat \<Rightarrow> string \<Rightarrow> string" where
  "SwapBytes_encode_loop data i result =
     (if i < length data then
        (let b = take 2 (drop i data) in
         if length b = 2 then SwapBytes_encode_loop data (i + 2) (result @ [b ! 1] @ [b ! 0])
         else SwapBytes_encode_loop data (i + 2) (result @ tag_value PADDING @ [b ! 0]))
      else result)"
  by pat_completeness auto
termination
  by (relation "measure (\<lambda>(data, i, result). length data - i)") auto

declare SwapBytes_encode_loop.simps [simp del]

definition SwapBytes_encode :: "string \<Rightarrow> string" where
  "SwapBytes_encode data = SwapBytes_encode_loop data 0 []"

function SwapBytes_decode_loop :: "string \<Rightarrow> nat \<Rightarrow> string \<Rightarrow> error + string" where
  "SwapBytes_decode_loop data i result =
     (if i < length data then
        (let b = take 2 (drop i data) in
         if length b = 2 then SwapBytes_decode_loop data (i + 2) (result @ [b ! 1] @ [b ! 0])
         else Inl InvalidPayload)
      else Inr result)"
  by pat_completeness auto
termination
  by (relation "measure (\<lambda>(data, i, result). length data - i)") auto

declare SwapBytes_decode_loop.simps [simp del]

text \<open>
  After the loop \<^verbatim>\<open>result[-1]\<close> is read: on an empty \<^verbatim>\<open>result\<close> that raises
  \<^verbatim>\<open>IndexError\<close>. \<^verbatim>\<open>result[:-1]\<close> is \<open>butlast result\<close>.
\<close>

definition SwapBytes_decode :: "string \<Rightarrow> error + string" where
  "SwapBytes_decode data =
     (case SwapBytes_decode_loop data 0 [] of
        Inl e \<Rightarrow> Inl e
      | Inr result \<Rightarrow>
          if result = [] then Inl IndexError
          else if [last result] = tag_value PADDING then Inr (butlast result)
          else Inr result)"

text \<open>
  Two structural functions used to reason about the loops: what the encoder's loop appends
  for the rest of the input, and what the decoder's loop appends (or the failure of its
  assertion).
\<close>

fun swap_pairs :: "string \<Rightarrow> string" where
  "swap_pairs (a # b # rest) = b # a # swap_pairs rest"
| "swap_pairs [a] = [CHR ''@'', a]"
| "swap_pairs [] = []"

fun swap_back :: "string \<Rightarrow> error + string" where
  "swap_back (a # b # rest) =
     (case swap_back rest of Inl e \<Rightarrow> Inl e | Inr r \<Rightarrow> Inr (b # a # r))"
| "swap_back [a] = Inl InvalidPayload"
| "swap_back [] = Inr []"

section \<open>Varint\<close>

text \<open>
  Modelled from the spec: the \<^verbatim>\<open>varint\<close> module (\<^verbatim>\<open>varint.encode\<close>,
  \<^verbatim>\<open>varint.decode_stream\<close>) is imported and not part of the repository. The spec: a
  base-128 little-endian variable-length integer; each byte holds 7 payload bits plus a
  continuation bit, set on all but the final byte. The decoder reads bytes until one with the
  continuation bit clear, reconstructs the integer from the 7-bit groups, and leaves the
  stream right after that byte. The spec defines the encoder on unsigned integers only.
\<close>

function varint_encode :: "nat \<Rightarrow> string" where
  "varint_encode n =
     (if n < 128 then [char_of n]
      else char_of (n mod 128 + 128) # varint_encode (n div 128))"
  by pat_completeness auto
termination
  by (relation "measure (\<lambda>n. n)") auto

declare varint_encode.simps [simp del]

fun varint_decode_loop :: "nat \<Rightarrow> nat \<Rightarrow> string \<Rightarrow> error + (nat \<times> string)" where
  "varint_decode_loop shift result [] = Inl ShortRead"
| "varint_decode_loop shift result (c # s) =
     (let i = (of_char c :: nat);
          result' = result + (i mod 128) * 2 ^ shift
      in if i < 128 then Inr (result', s)
         else varint_decode_loop (shift + 7) result' s)"

definition varint_decode_stream :: "string \<Rightarrow> error + (nat \<times> string)" where
  "varint_decode_stream s = varint_decode_loop 0 0 s"

section \<open>Values and the byte stream\<close>

text \<open>
  The Python values that travel as payloads and as \<^verbatim>\<open>token_args\<close>: \<^verbatim>\<open>None\<close>, an
  integer, a byte string, a float (held as its 64-bit pattern, since no arithmetic is done
  on it), a member of \<^verbatim>\<open>ArrayBufferViewSubtag\<close>, and a tuple.
\<close>

datatype pyvalue =
    PyNone
  | PyInt int
  | PyStr string
  | PyFloat "64 word"
  | PySubtag ArrayBufferViewSubtag
  | PyTuple "pyvalue list"

text \<open>
  Modelled from the spec: the class \<^verbatim>\<open>StructIO\<close> (\<^verbatim>\<open>read\<close>, \<^verbatim>\<open>write\<close>,
  \<^verbatim>\<open>read_double\<close>, \<^verbatim>\<open>write_double\<close>) is imported and not part of the repository. The
  spec: \<^verbatim>\<open>read(n)\<close> returns exactly n bytes or fails if the source is exhausted;
  \<^verbatim>\<open>write(bytes)\<close> appends; \<^verbatim>\<open>read_double\<close> and \<^verbatim>\<open>write_double\<close> transfer one 8-byte
  floating value. A reader's state is the bytes not yet read, a writer's state the bytes
  written so far;
  \<^verbatim>\<open>write\<close> is named \<open>write_bytes\<close> here. The order of the 8 bytes is taken least significant first; nothing proved
  below depends on it.
\<close>

definition read :: "nat \<Rightarrow> string \<Rightarrow> error + (string \<times> string)" where
  "read n s = (if n \<le> length s then Inr (take n s, drop n s) else Inl ShortRead)"

definition write_bytes :: "pyvalue \<Rightarrow> string \<Rightarrow> (error + unit) \<times> string" where
  "write_bytes v dest =
     (case v of PyStr bytes \<Rightarrow> (Inr (), dest @ bytes) | _ \<Rightarrow> (Inl TypeError, dest))"

definition double_bytes :: "64 word \<Rightarrow> string" where
  "double_bytes w = map (\<lambda>k. char_of (unat (drop_bit (8 * k) w))) [0..<8]"

definition bytes_double :: "string \<Rightarrow> 64 word" where
  "bytes_double bs = foldr (\<lambda>c w. of_nat (of_char c) + push_bit 8 w) bs 0"

definition read_double :: "string \<Rightarrow> error + (pyvalue \<times> string)" where
  "read_double s =
     (case read 8 s of
        Inl e \<Rightarrow> Inl e
      | Inr (bs, s') \<Rightarrow> Inr (PyFloat (bytes_double bs), s'))"

definition write_double :: "pyvalue \<Rightarrow> string \<Rightarrow> (error + unit) \<times> string" where
  "write_double v dest =
     (case v of
        PyFloat w \<Rightarrow> (Inr (), dest @ double_bytes w)
      | PyNone \<Rightarrow> (Inl TypeError, dest)
      | PyStr bytes \<Rightarrow> (Inl TypeError, dest)
      | PySubtag st \<Rightarrow> (Inl TypeError, dest)
      | PyTuple vs \<Rightarrow> (Inl TypeError, dest)
      | PyInt n \<Rightarrow> (Inl Unmodelled, dest))"

text \<open>\<^verbatim>\<open>len(value)\<close>: defined on strings and tuples, a \<^verbatim>\<open>TypeError\<close> otherwise.\<close>

definition py_len :: "pyvalue \<Rightarrow> error + nat" where
  "py_len v =
     (case v of
        PyStr bytes \<Rightarrow> Inr (length bytes)
      | PyTuple vs \<Rightarrow> Inr (length vs)
      | _ \<Rightarrow> Inl TypeError)"

text \<open>
  \<^verbatim>\<open>ArrayBufferViewSubtag(x)\<close>: a member is returned as it is, a byte string is looked up
  among the members' values, and anything else is no member's value.
\<close>

definition ArrayBufferViewSubtag_call :: "pyvalue \<Rightarrow> error + ArrayBufferViewSubtag" where
  "ArrayBufferViewSubtag_call v =
     (case v of
        PySubtag st \<Rightarrow> Inr st
      | PyStr bytes \<Rightarrow>
          (case find (\<lambda>st. subtag_value st = bytes) ArrayBufferViewSubtag_members of
             None \<Rightarrow> Inl InvalidTag
           | Some st \<Rightarrow> Inr st)
      | _ \<Rightarrow> Inl InvalidTag)"

text \<open>
  Sequencing of two writer steps: the second runs on the destination the first has left,
  and only if the first has not raised.
\<close>

definition seq :: "(error + unit) \<times> string \<Rightarrow> (string \<Rightarrow> (error + unit) \<times> string) \<Rightarrow> (error + unit) \<times> string" where
  "seq r f = (case r of (Inl e, dest) \<Rightarrow> (Inl e, dest) | (Inr u, dest) \<Rightarrow> f dest)"

section \<open>Reader and Writer\<close>

definition NOOP_TAGS :: "SerializationTag set" where
  "NOOP_TAGS = set [PADDING, GENERATE_FRESH_OBJECT]"

definition VARINT_TAGS :: "SerializationTag set" where
  "VARINT_TAGS = set [REFERENCE_COUNT, OBJECT]"

definition read_tag :: "string \<Rightarrow> error + (SerializationTag \<times> string)" where
  "read_tag s =
     (case read 1 s of
        Inl e \<Rightarrow> Inl e
      | Inr (tag, s') \<Rightarrow>
          (case SerializationTag_call tag of Inl e \<Rightarrow> Inl e | Inr t \<Rightarrow> Inr (t, s')))"

definition read_varint :: "string \<Rightarrow> error + (nat \<times> string)" where
  "read_varint s = varint_decode_stream s"

definition read_token :: "string \<Rightarrow> error + ((SerializationTag \<times> pyvalue) \<times> string)" where
  "read_token s =
     (case read_tag s of
        Inl e \<Rightarrow> Inl e
      | Inr (tag, s1) \<Rightarrow>
          if tag \<in> NOOP_TAGS then Inr ((tag, PyNone), s1)
          else if tag \<in> VARINT_TAGS then
            (case read_varint s1 of
               Inl e \<Rightarrow> Inl e
             | Inr (v, s2) \<Rightarrow> Inr ((tag, PyInt (int v)), s2))
          else if tag = VERSION then
            (case read_varint s1 of
               Inl e \<Rightarrow> Inl e
             | Inr (v, s2) \<Rightarrow>
                 if v \<le> 9 then Inr ((tag, PyInt (int v)), s2)
                 else Inl (UnsupportedVersion (int v)))
          else if tag = ARRAY_BUFFER then
            (case read_varint s1 of
               Inl e \<Rightarrow> Inl e
             | Inr (buflen, s2) \<Rightarrow>
                 (case read buflen s2 of
                    Inl e \<Rightarrow> Inl e
                  | Inr (bytes, s3) \<Rightarrow> Inr ((tag, PyStr bytes), s3)))
          else if tag = STRING then
            (case read_varint s1 of
               Inl e \<Rightarrow> Inl e
             | Inr (strlen, s2) \<Rightarrow>
                 (case read strlen s2 of
                    Inl e \<Rightarrow> Inl e
                  | Inr (result, s3) \<Rightarrow> Inr ((tag, PyStr result), s3)))
          else if tag = DATE then
            (case read_double s1 of
               Inl e \<Rightarrow> Inl e
             | Inr (d, s2) \<Rightarrow> Inr ((tag, d), s2))
          else if tag = INT32 then
            (case read_varint s1 of
               Inl e \<Rightarrow> Inl e
             | Inr (result, s2) \<Rightarrow> Inr ((tag, PyInt (ZigZag_decode (int result))), s2))
          else if tag = ARRAY_BUFFER_VIEW then
            (case read 1 s1 of
               Inl e \<Rightarrow> Inl e
             | Inr (b, s2) \<Rightarrow>
                 (case ArrayBufferViewSubtag_call (PyStr b) of
                    Inl e \<Rightarrow> Inl e
                  | Inr subtag \<Rightarrow>
                      (case read_varint s2 of
                         Inl e \<Rightarrow> Inl e
                       | Inr (offset, s3) \<Rightarrow>
                           (case read_varint s3 of
                              Inl e \<Rightarrow> Inl e
                            | Inr (len, s4) \<Rightarrow>
                                Inr ((tag, PyTuple [PySubtag subtag, PyInt (int offset),
                                                    PyInt (int len)]), s4)))))
          else Inl (NotImplemented (''Unimplemented Tag, '' @ tag_name tag)))"

text \<open>
  \<^verbatim>\<open>write_tag\<close> is given a member, and \<^verbatim>\<open>SerializationTag(tag)\<close> of a member is that
  member.
\<close>

definition write_tag :: "SerializationTag \<Rightarrow> string \<Rightarrow> (error + unit) \<times> string" where
  "write_tag tag dest = write_bytes (PyStr (tag_value tag)) dest"

definition write_varint :: "pyvalue \<Rightarrow> string \<Rightarrow> (error + unit) \<times> string" where
  "write_varint v dest =
     (case v of
        PyInt n \<Rightarrow>
          if n < 0 then (Inl Unmodelled, dest)
          else write_bytes (PyStr (varint_encode (nat n))) dest
      | _ \<Rightarrow> (Inl TypeError, dest))"

text \<open>
  \<^verbatim>\<open>write_token(tag, *token_args)\<close>, branch by branch in the order of the source. The
  unpacking \<^verbatim>\<open>value, = token_args\<close> is the \<open>case\<close> on the argument list; the result is
  the outcome together with the destination as the call leaves it, also when it raises.
\<close>

definition write_token :: "SerializationTag \<Rightarrow> pyvalue list \<Rightarrow> string \<Rightarrow> (error + unit) \<times> string" where
  "write_token tag token_args dest =
     (if tag \<in> NOOP_TAGS then write_tag tag dest
      else if tag = VERSION then
        (case token_args of
           [v] \<Rightarrow> seq (write_tag tag dest) (write_varint v)
         | _ \<Rightarrow> (Inl UnpackError, dest))
      else if tag \<in> VARINT_TAGS then
        (case token_args of
           [v] \<Rightarrow> seq (write_tag tag dest) (write_varint v)
         | _ \<Rightarrow> (Inl UnpackError, dest))
      else if tag = ARRAY_BUFFER then
        (case token_args of
           [v] \<Rightarrow>
             seq (write_tag tag dest) (\<lambda>d1.
               case py_len v of
                 Inl e \<Rightarrow> (Inl e, d1)
               | Inr n \<Rightarrow> seq (write_varint (PyInt (int n)) d1) (write_bytes v))
         | _ \<Rightarrow> (Inl UnpackError, dest))
      else if tag = STRING then
        (case token_args of
           [v] \<Rightarrow>
             seq (write_tag tag dest) (\<lambda>d1.
               case py_len v of
                 Inl e \<Rightarrow> (Inl e, d1)
               | Inr n \<Rightarrow>
                   if n > 1 then seq (write_varint (PyInt (int n)) d1) (write_bytes v)
                   else (Inl InvalidPayload, d1))
         | _ \<Rightarrow> (Inl UnpackError, dest))
      else if tag = DATE then
        (case token_args of
           [v] \<Rightarrow> write_double v dest
         | _ \<Rightarrow> (Inl UnpackError, dest))
      else if tag = INT32 then
        (case token_args of
           [v] \<Rightarrow>
             (case v of
                PyInt n \<Rightarrow> write_varint (PyInt (ZigZag_encode n)) dest
              | _ \<Rightarrow> (Inl TypeError, dest))
         | _ \<Rightarrow> (Inl UnpackError, dest))
      else if tag = ARRAY_BUFFER_VIEW then
        (case token_args of
           [subtag, offset, len] \<Rightarrow>
             (case ArrayBufferViewSubtag_call subtag of
                Inl e \<Rightarrow> (Inl e, dest)
              | Inr st \<Rightarrow>
                  seq (seq (write_bytes (PyStr (subtag_value st)) dest) (write_varint offset))
                      (write_varint len))
         | _ \<Rightarrow> (Inl UnpackError, dest))
      else (Inl (NotImplemented (''Unimplemented Tag, '' @ tag_name tag)), dest))"

text \<open>The tags that have a branch in both dispatchers.\<close>

definition HANDLED_TAGS :: "SerializationTag set" where
  "HANDLED_TAGS =
     NOOP_TAGS \<union> VARINT_TAGS \<union> {VERSION, ARRAY_BUFFER, STRING, DATE, INT32, ARRAY_BUFFER_VIEW}"

section \<open>The enumerations\<close>

text \<open>
  The members against the class body: every member's name is declared with the member's
  value, every declared value is the value of a member, and no two members share a value.
\<close>

lemma tag_name_declared: "(tag_name t, tag_value t) \<in> set SerializationTag_class"
  by (cases t) (simp_all add: SerializationTag_class_def)

lemma declared_value_has_member:
  "list_all (\<lambda>d. \<exists>t \<in> set SerializationTag_members. tag_value t = snd d)
     SerializationTag_class"
  by (simp add: SerializationTag_class_def SerializationTag_members_def)

lemma tag_values_distinct: "distinct (map tag_value SerializationTag_members)"
  by (simp add: SerializationTag_members_def)

lemma call_tag_value: "SerializationTag_call (tag_value t) = Inr t"
  by (cases t) (simp_all add: SerializationTag_call_def SerializationTag_members_def)

lemma call_Inr_value: "SerializationTag_call v = Inr t \<Longrightarrow> tag_value t = v"
  by (auto simp: SerializationTag_call_def find_Some_iff split: option.splits)

lemma call_unmapped: "(\<forall>t. tag_value t \<noteq> v) \<Longrightarrow> SerializationTag_call v = Inl InvalidTag"
  by (auto simp: SerializationTag_call_def find_None_iff split: option.splits)

lemma tag_value_single: "\<exists>c. tag_value t = [c]"
  by (cases t) simp_all

lemma subtag_call_value: "ArrayBufferViewSubtag_call (PyStr (subtag_value st)) = Inr st"
  by (cases st) (simp_all add: ArrayBufferViewSubtag_call_def ArrayBufferViewSubtag_members_def)

section \<open>Reading a tag\<close>

lemma read_append: "read (length bs) (bs @ rest) = Inr (bs, rest)"
  by (simp add: read_def)

lemma read_tag_value: "read_tag (tag_value t @ rest) = Inr (t, rest)"
proof -
  obtain c where c: "tag_value t = [c]" using tag_value_single by blast
  have "SerializationTag_call [c] = Inr t" using call_tag_value[of t] c by simp
  then show ?thesis by (simp add: read_tag_def read_def c)
qed

lemma read_tag_Inr: "read_tag s = Inr (t, s') \<Longrightarrow> s = tag_value t @ s'"
proof (cases s)
  case Nil
  assume "read_tag s = Inr (t, s')"
  with Nil show ?thesis by (simp add: read_tag_def read_def)
next
  case (Cons c rest)
  assume "read_tag s = Inr (t, s')"
  with Cons have "SerializationTag_call [c] = Inr t" and "s' = rest"
    by (auto simp: read_tag_def read_def split: sum.splits)
  with Cons show ?thesis using call_Inr_value[of "[c]" t] by simp
qed

lemma read_token_tag: "read_token s = Inr ((t, p), s') \<Longrightarrow> \<exists>s1. read_tag s = Inr (t, s1)"
  by (cases "read_tag s") (auto simp: read_token_def split: if_splits sum.splits)

section \<open>Varint round trip\<close>

lemma varint_step: "(n::nat) mod 128 * k + n div 128 * (k * 128) = n * k"
proof -
  have "n mod 128 * k + n div 128 * (k * 128) = (n mod 128 + n div 128 * 128) * k"
    by (simp only: distrib_right mult.assoc mult.commute[of k 128])
  also have "n mod 128 + n div 128 * 128 = n"
    by (rule mod_div_mult_eq)
  finally show ?thesis .
qed

lemma varint_loop_rt:
  "varint_decode_loop sh acc (varint_encode n @ rest) = Inr (acc + n * 2 ^ sh, rest)"
proof (induction n arbitrary: sh acc rule: varint_encode.induct)
  case (1 n)
  show ?case
  proof (cases "n < 128")
    case True
    then show ?thesis by (subst varint_encode.simps) simp
  next
    case False
    have e: "n mod 128 * 2 ^ sh + n div 128 * 2 ^ (sh + 7) = n * 2 ^ sh"
      using varint_step[of n "2 ^ sh"] by (simp add: power_add)
    have "varint_decode_loop sh acc (varint_encode n @ rest) =
          varint_decode_loop (sh + 7) (acc + n mod 128 * 2 ^ sh) (varint_encode (n div 128) @ rest)"
      using False by (subst varint_encode.simps) (simp add: Let_def)
    also have "\<dots> = Inr (acc + n mod 128 * 2 ^ sh + n div 128 * 2 ^ (sh + 7), rest)"
      using 1[OF False] by simp
    finally show ?thesis using e by (simp add: add.assoc)
  qed
qed

lemma read_varint_encode: "read_varint (varint_encode n @ rest) = Inr (n, rest)"
  by (simp add: read_varint_def varint_decode_stream_def varint_loop_rt)

section \<open>ZigZag\<close>

text \<open>
  Claim C7. For every signed 32-bit integer \<open>x\<close> (indeed for every integer),
  \<open>ZigZag.decode(ZigZag.encode(x)) = x\<close>; the encoder maps an \<open>x\<close> with bit 31 set to
  \<open>((~x) << 1) | 1\<close> and any other \<open>x\<close> to \<open>x << 1\<close>; the decoder maps a \<open>v\<close> with bit 0
  set to \<open>~(v >> 1)\<close> and any other \<open>v\<close> to \<open>v >> 1\<close>.
\<close>

theorem ZigZag_roundtrip:
  "ZigZag_decode (ZigZag_encode x) = x
   \<and> ZigZag_encode x = (if bit x 31 then push_bit 1 (NOT x) OR 1 else push_bit 1 x)
   \<and> ZigZag_decode v = (if bit v 0 then NOT (drop_bit 1 v) else drop_bit 1 v)"
proof (intro conjI)
  show "ZigZag_decode (ZigZag_encode x) = x"
    by (simp add: ZigZag_decode_def ZigZag_encode_def push_bit_eq_mult drop_bit_eq_div
        and_one_eq)
  show "ZigZag_encode x = (if bit x 31 then push_bit 1 (NOT x) OR 1 else push_bit 1 x)"
    by (simp add: ZigZag_encode_def bit_iff_and_push_bit_not_eq_0 or_one_eq push_bit_eq_mult)
  show "ZigZag_decode v = (if bit v 0 then NOT (drop_bit 1 v) else drop_bit 1 v)"
    by (simp add: ZigZag_decode_def bit_0 and_one_eq mod_2_eq_odd)
qed

theorem ZigZag_roundtrip_witness:
  "ZigZag_encode (- 1) = 1 \<and> ZigZag_decode 1 = - 1
   \<and> ZigZag_encode (- 2147483648) = 4294967295 \<and> ZigZag_decode 4294967295 = - 2147483648
   \<and> ZigZag_encode 2147483647 = 4294967294 \<and> ZigZag_decode 4294967294 = 2147483647"
  using ZigZag_roundtrip [of "- 1" 1] ZigZag_roundtrip [of "- 2147483648" 4294967295]
    ZigZag_roundtrip [of 2147483647 4294967294]
  by (simp add: ZigZag_encode_def ZigZag_decode_def)

section \<open>SwapBytes\<close>

lemma SwapBytes_encode_loop_eq:
  "SwapBytes_encode_loop data i result = result @ swap_pairs (drop i data)"
proof (induction data i result rule: SwapBytes_encode_loop.induct)
  case (1 data i result)
  show ?case
  proof (cases "i < length data")
    case False
    then show ?thesis by (subst SwapBytes_encode_loop.simps) simp
  next
    case True
    then obtain a rest where d: "drop i data = a # rest"
      by (cases "drop i data") auto
    have dd: "drop (i + 2) data = drop 2 (a # rest)"
      using d by (metis add.commute drop_drop)
    show ?thesis
    proof (cases rest)
      case Nil
      with d dd True 1(2)[of "[a]"] show ?thesis
        by (subst SwapBytes_encode_loop.simps) (simp add: Let_def)
    next
      case (Cons b rest')
      with d dd True 1(1)[of "[a, b]"] show ?thesis
        by (subst SwapBytes_encode_loop.simps) (simp add: Let_def)
    qed
  qed
qed

lemma SwapBytes_decode_loop_eq:
  "SwapBytes_decode_loop data i result =
   (case swap_back (drop i data) of Inl e \<Rightarrow> Inl e | Inr r \<Rightarrow> Inr (result @ r))"
proof (induction data i result rule: SwapBytes_decode_loop.induct)
  case (1 data i result)
  show ?case
  proof (cases "i < length data")
    case False
    then show ?thesis by (subst SwapBytes_decode_loop.simps) simp
  next
    case True
    then obtain a rest where d: "drop i data = a # rest"
      by (cases "drop i data") auto
    have dd: "drop (i + 2) data = drop 2 (a # rest)"
      using d by (metis add.commute drop_drop)
    show ?thesis
    proof (cases rest)
      case Nil
      with d dd True show ?thesis
        by (subst SwapBytes_decode_loop.simps) (simp add: Let_def)
    next
      case (Cons b rest')
      with d dd True 1[of "[a, b]"] show ?thesis
        by (subst SwapBytes_decode_loop.simps) (simp add: Let_def split: sum.splits)
    qed
  qed
qed

lemma swap_back_pairs:
  "swap_back (swap_pairs b) = Inr (if even (length b) then b else b @ ''@'')"
  by (induction b rule: swap_pairs.induct) simp_all

lemma SwapBytes_decode_encode:
  "SwapBytes_decode (SwapBytes_encode b) =
   (if b = [] then Inl IndexError
    else if odd (length b) then Inr b
    else if last b = CHR ''@'' then Inr (butlast b)
    else Inr b)"
  by (simp add: SwapBytes_decode_def SwapBytes_encode_def SwapBytes_encode_loop_eq
      SwapBytes_decode_loop_eq swap_back_pairs)

text \<open>
  Claim C4, as stated, fails. For the two-byte input \<^verbatim>\<open>a@\<close> the decoder takes the genuine
  last byte for the padding sentinel and returns \<^verbatim>\<open>a\<close>; for the empty input the encoder
  returns the empty string, on which the decoder raises \<^verbatim>\<open>IndexError\<close> at
  \<^verbatim>\<open>result[-1]\<close>.
\<close>

theorem SwapBytes_roundtrip_counterexample:
  "SwapBytes_encode ''a@'' = ''@a''
   \<and> SwapBytes_decode (SwapBytes_encode ''a@'') = Inr ''a''
   \<and> SwapBytes_decode (SwapBytes_encode ''a@'') \<noteq> Inr ''a@''
   \<and> SwapBytes_encode [] = []
   \<and> SwapBytes_decode (SwapBytes_encode []) = Inl IndexError"
  by (simp add: SwapBytes_decode_def SwapBytes_encode_def SwapBytes_encode_loop.simps
      SwapBytes_decode_loop.simps Let_def)

text \<open>
  Claim C4, amended. For every non-empty byte sequence \<open>b\<close> the decoder succeeds on the
  encoder's output; it returns \<open>b\<close> when \<open>b\<close> has odd length or does not end in the PADDING
  byte \<^verbatim>\<open>@\<close>, and \<open>b\<close> without its last byte when \<open>b\<close> has even length and ends in
  \<^verbatim>\<open>@\<close>.
\<close>

theorem SwapBytes_roundtrip_amended:
  "b \<noteq> [] \<Longrightarrow>
   SwapBytes_decode (SwapBytes_encode b) =
     (if even (length b) \<and> last b = CHR ''@'' then Inr (butlast b) else Inr b)"
  by (simp add: SwapBytes_decode_encode)

theorem SwapBytes_roundtrip_amended_witness:
  "''abc'' \<noteq> [] \<and> SwapBytes_decode (SwapBytes_encode ''abc'') = Inr ''abc''
   \<and> ''@'' \<noteq> [] \<and> SwapBytes_decode (SwapBytes_encode ''@'') = Inr ''@''
   \<and> ''ab'' \<noteq> [] \<and> SwapBytes_decode (SwapBytes_encode ''ab'') = Inr ''ab''
   \<and> ''b@'' \<noteq> [] \<and> SwapBytes_decode (SwapBytes_encode ''b@'') = Inr ''b''"
  using SwapBytes_roundtrip_amended [of "''abc''"] SwapBytes_roundtrip_amended [of "''@''"]
    SwapBytes_roundtrip_amended [of "''ab''"] SwapBytes_roundtrip_amended [of "''b@''"]
  by simp

section \<open>Tags without a branch\<close>

text \<open>
  Claim C9. For every member of \<^verbatim>\<open>SerializationTag\<close> outside the handled set (for example
  \<^verbatim>\<open>MAP\<close>, byte \<^verbatim>\<open>:\<close>), \<^verbatim>\<open>read_token\<close> on a stream that starts with the member's byte
  raises \<^verbatim>\<open>NotImplementedError\<close> with the message naming that member, and
  \<^verbatim>\<open>write_token\<close> with that member raises the same error and writes nothing.
\<close>

theorem unhandled_tag_not_implemented:
  "t \<notin> HANDLED_TAGS \<Longrightarrow>
     read_token (tag_value t @ s) = Inl (NotImplemented (''Unimplemented Tag, '' @ tag_name t))
   \<and> write_token t args dest = (Inl (NotImplemented (''Unimplemented Tag, '' @ tag_name t)), dest)"
  by (simp add: read_token_def read_tag_value write_token_def HANDLED_TAGS_def NOOP_TAGS_def
      VARINT_TAGS_def del: tag_value.simps tag_name.simps)

theorem unhandled_tag_not_implemented_witness:
  "MAP \<notin> HANDLED_TAGS
   \<and> read_token ('':'' @ ''xyz'') = Inl (NotImplemented ''Unimplemented Tag, MAP'')
   \<and> write_token MAP [PyInt 3] ''ab'' = (Inl (NotImplemented ''Unimplemented Tag, MAP''), ''ab'')"
  using unhandled_tag_not_implemented [of MAP "''xyz''" "[PyInt 3]" "''ab''"]
  by (simp add: HANDLED_TAGS_def NOOP_TAGS_def VARINT_TAGS_def)

section \<open>Tokens that round-trip\<close>

text \<open>
  For the five branches of \<^verbatim>\<open>write_token\<close> that call \<^verbatim>\<open>write_tag\<close>, the bytes written
  are the tag byte followed by the payload, and \<^verbatim>\<open>read_token\<close> gives the token back and
  leaves the stream right after it. The no-payload and varint tags and \<^verbatim>\<open>ARRAY_BUFFER\<close>
  are below; \<^verbatim>\<open>VERSION\<close> and \<^verbatim>\<open>STRING\<close> follow with their checks.
\<close>

lemma roundtrip_NOOP:
  "tag \<in> NOOP_TAGS \<Longrightarrow>
     write_token tag args dest = (Inr (), dest @ tag_value tag)
   \<and> read_token (tag_value tag @ rest) = Inr ((tag, PyNone), rest)"
  by (simp add: read_token_def read_tag_value write_token_def write_tag_def write_bytes_def
      del: tag_value.simps)

lemma roundtrip_VARINT:
  "tag \<in> VARINT_TAGS \<Longrightarrow>
     write_token tag [PyInt (int n)] dest = (Inr (), dest @ tag_value tag @ varint_encode n)
   \<and> read_token (tag_value tag @ varint_encode n @ rest) = Inr ((tag, PyInt (int n)), rest)"
  by (auto simp add: read_token_def read_tag_value read_varint_encode write_token_def
      write_tag_def write_bytes_def write_varint_def seq_def NOOP_TAGS_def VARINT_TAGS_def
      simp del: tag_value.simps)

lemma roundtrip_ARRAY_BUFFER:
  "write_token ARRAY_BUFFER [PyStr bs] dest =
     (Inr (), dest @ tag_value ARRAY_BUFFER @ varint_encode (length bs) @ bs)
   \<and> read_token (tag_value ARRAY_BUFFER @ varint_encode (length bs) @ bs @ rest) =
     Inr ((ARRAY_BUFFER, PyStr bs), rest)"
  by (simp add: read_token_def read_tag_value read_varint_encode read_append write_token_def
      write_tag_def write_bytes_def write_varint_def seq_def NOOP_TAGS_def VARINT_TAGS_def
      py_len_def del: tag_value.simps)

text \<open>
  Claim C5. Reading a \<^verbatim>\<open>VERSION\<close> token returns \<open>(VERSION, v)\<close> for every encoded payload
  \<open>v \<le> 9\<close> and raises the version assertion for every payload \<open>v > 9\<close>, also when the
  payload is given by any byte string that the varint decoder reads as \<open>v\<close>; the writer
  emits the tag byte and the varint, so version 9 round-trips and version 10 is written but
  fails to decode.
\<close>

theorem VERSION_gate:
  "(v \<le> 9 \<longrightarrow>
      read_token (tag_value VERSION @ varint_encode v @ rest) =
        Inr ((VERSION, PyInt (int v)), rest))
   \<and> (9 < v \<longrightarrow>
      read_token (tag_value VERSION @ varint_encode v @ rest) =
        Inl (UnsupportedVersion (int v)))
   \<and> (read_varint s = Inr (v, rest) \<longrightarrow>
      read_token (tag_value VERSION @ s) =
        (if v \<le> 9 then Inr ((VERSION, PyInt (int v)), rest)
         else Inl (UnsupportedVersion (int v))))
   \<and> write_token VERSION [PyInt (int v)] dest =
        (Inr (), dest @ tag_value VERSION @ varint_encode v)"
  by (simp add: read_token_def read_tag_value read_varint_encode NOOP_TAGS_def VARINT_TAGS_def
      write_token_def write_tag_def write_bytes_def write_varint_def seq_def
      del: tag_value.simps)

theorem VERSION_gate_witness:
  "write_token VERSION [PyInt 9] [] = (Inr (), [CHR 0xFF, CHR 0x09])
   \<and> read_token [CHR 0xFF, CHR 0x09] = Inr ((VERSION, PyInt 9), [])
   \<and> write_token VERSION [PyInt 10] [] = (Inr (), [CHR 0xFF, CHR 0x0A])
   \<and> read_token [CHR 0xFF, CHR 0x0A] = Inl (UnsupportedVersion 10)"
proof -
  have c9: "char_of (9::nat) = CHR 0x09" and c10: "char_of (10::nat) = CHR 0x0A"
    by (simp_all add: char_of_eq_iff)
  show ?thesis
    using VERSION_gate [of 9 "[]" "[]" "[]"] VERSION_gate [of 10 "[]" "[]" "[]"]
    by (simp add: varint_encode.simps c9 c10)
qed

text \<open>
  Claim C6. \<^verbatim>\<open>write_token(STRING, s)\<close> raises the payload assertion for every \<open>s\<close> of
  length at most 1, and for every \<open>s\<close> of length above 1 it succeeds and has written the
  tag byte, the varint of the length and the raw bytes, which \<^verbatim>\<open>read_token\<close> reads back as
  \<open>(STRING, s)\<close>.
\<close>

theorem STRING_length_gate:
  "(length s \<le> 1 \<longrightarrow> fst (write_token STRING [PyStr s] dest) = Inl InvalidPayload)
   \<and> (1 < length s \<longrightarrow>
        write_token STRING [PyStr s] dest =
          (Inr (), dest @ tag_value STRING @ varint_encode (length s) @ s)
      \<and> read_token (tag_value STRING @ varint_encode (length s) @ s @ rest) =
          Inr ((STRING, PyStr s), rest))"
  by (simp add: read_token_def read_tag_value read_varint_encode read_append NOOP_TAGS_def
      VARINT_TAGS_def write_token_def write_tag_def write_bytes_def write_varint_def seq_def
      py_len_def del: tag_value.simps)

theorem STRING_length_gate_witness:
  "length ''h'' \<le> 1 \<and> fst (write_token STRING [PyStr ''h''] []) = Inl InvalidPayload
   \<and> 1 < length ''hi''
   \<and> write_token STRING [PyStr ''hi''] [] = (Inr (), [CHR ''S'', CHR 0x02, CHR ''h'', CHR ''i''])
   \<and> read_token [CHR ''S'', CHR 0x02, CHR ''h'', CHR ''i''] = Inr ((STRING, PyStr ''hi''), [])"
proof -
  have c2: "char_of (Suc (Suc 0)) = CHR 0x02"
    by (simp add: char_of_eq_iff take_bit_eq_mod)
  show ?thesis
    using STRING_length_gate [of "''h''" "[]" "[]"] STRING_length_gate [of "''hi''" "[]" "[]"]
    by (simp add: varint_encode.simps c2)
qed

section \<open>Branches that write no tag byte\<close>

lemma no_tag_0x01: "tag_value t \<noteq> [CHR 0x01]"
  by (cases t) simp_all

lemma length_double_bytes: "length (double_bytes w) = 8"
  by (simp add: double_bytes_def)

text \<open>
  Claim C1, at a failing input. \<^verbatim>\<open>write_token(INT32, -1)\<close> writes the single byte 0x01,
  the zigzag varint, with no tag byte before it; \<^verbatim>\<open>read_token\<close> on that byte takes it for
  a tag and raises, since no member has the value 0x01. \<^verbatim>\<open>write_token(INT32, 32)\<close>
  writes the byte \<^verbatim>\<open>@\<close>, which reads back as the token \<open>(PADDING, None)\<close>.
\<close>

theorem INT32_write_then_read:
  "write_token INT32 [PyInt (- 1)] [] = (Inr (), [CHR 0x01])
   \<and> read_token [CHR 0x01] = Inl InvalidTag
   \<and> write_token INT32 [PyInt 32] [] = (Inr (), ''@'')
   \<and> read_token ''@'' = Inr ((PADDING, PyNone), [])"
proof -
  have c1: "char_of (Suc 0) = CHR 0x01" and c64: "char_of (64::nat) = CHR ''@''"
    by (simp_all add: char_of_eq_iff)
  have z: "ZigZag_encode (- 1) = 1" "ZigZag_encode 32 = 64"
    by (simp_all add: ZigZag_encode_def)
  have r: "read_tag [CHR 0x01] = Inl InvalidTag"
    using call_unmapped [of "[CHR 0x01]"] no_tag_0x01 by (simp add: read_tag_def read_def)
  have p: "read_tag ''@'' = Inr (PADDING, [])"
    using read_tag_value [of PADDING "[]"] by simp
  show ?thesis
    using r p
    by (simp add: write_token_def NOOP_TAGS_def VARINT_TAGS_def write_varint_def
        write_bytes_def z varint_encode.simps c1 c64 read_token_def)
qed

text \<open>
  Claim C2, at failing inputs. \<^verbatim>\<open>write_token\<close> for \<^verbatim>\<open>DATE\<close> writes the 8 bytes of the
  float and no \<^verbatim>\<open>D\<close> before them; for \<^verbatim>\<open>INT32\<close> with value 1 it writes the single
  varint byte 0x02 and no \<^verbatim>\<open>I\<close>; for \<^verbatim>\<open>ARRAY_BUFFER_VIEW\<close> with subtag
  \<^verbatim>\<open>FLOAT_ARRAY\<close>, offset 0 and length 16 it writes the subtag byte and the two varints
  and no \<^verbatim>\<open>V\<close>.
\<close>

theorem write_token_without_tag_byte:
  "write_token DATE [PyFloat w] dest = (Inr (), dest @ double_bytes w)
   \<and> length (double_bytes w) = 8
   \<and> write_token DATE [PyFloat 0] [] =
       (Inr (), [CHR 0x00, CHR 0x00, CHR 0x00, CHR 0x00, CHR 0x00, CHR 0x00, CHR 0x00, CHR 0x00])
   \<and> write_token INT32 [PyInt 1] [] = (Inr (), [CHR 0x02])
   \<and> write_token ARRAY_BUFFER_VIEW [PySubtag FLOAT_ARRAY, PyInt 0, PyInt 16] [] =
       (Inr (), [CHR ''f'', CHR 0x00, CHR 0x10])"
proof -
  have c: "char_of (2::nat) = CHR 0x02" "char_of (0::nat) = CHR 0x00"
    "char_of (16::nat) = CHR 0x10"
    by (simp_all add: char_of_eq_iff)
  have z: "ZigZag_encode 1 = 2"
    by (simp add: ZigZag_encode_def)
  have u: "[0..<8] = [0, 1, 2, 3, 4, 5, 6, 7]"
    by (simp add: upt_rec)
  show ?thesis
    by (simp add: write_token_def NOOP_TAGS_def VARINT_TAGS_def write_varint_def
        write_double_def write_bytes_def z varint_encode.simps c seq_def
        ArrayBufferViewSubtag_call_def double_bytes_def u)
qed

section \<open>What a failing write leaves behind\<close>

text \<open>
  Claim C3, as stated, fails. \<^verbatim>\<open>write_token(STRING, "h")\<close> on an empty destination raises
  the payload assertion after \<^verbatim>\<open>write_tag\<close> has run: the destination holds the byte
  \<^verbatim>\<open>S\<close>.
\<close>

theorem short_STRING_counterexample:
  "write_token STRING [PyStr ''h''] [] = (Inl InvalidPayload, ''S'')
   \<and> snd (write_token STRING [PyStr ''h''] []) \<noteq> []"
  by (simp add: NOOP_TAGS_def VARINT_TAGS_def write_token_def write_tag_def write_bytes_def
      write_varint_def seq_def py_len_def)

text \<open>
  Claim C3, amended. When \<^verbatim>\<open>write_token\<close> fails on a tag outside the handled set, the
  destination receives no byte. When it fails on a \<^verbatim>\<open>STRING\<close> payload of length at most 1,
  the destination has received the tag byte \<^verbatim>\<open>S\<close> and nothing after it: neither the
  length nor the payload bytes are written.
\<close>

theorem failing_write_destination:
  "(tag \<notin> HANDLED_TAGS \<longrightarrow>
      write_token tag args dest =
        (Inl (NotImplemented (''Unimplemented Tag, '' @ tag_name tag)), dest))
   \<and> (length s \<le> 1 \<longrightarrow>
      write_token STRING [PyStr s] dest = (Inl InvalidPayload, dest @ tag_value STRING))"
  by (simp add: HANDLED_TAGS_def NOOP_TAGS_def VARINT_TAGS_def write_token_def write_tag_def
      write_bytes_def write_varint_def seq_def py_len_def del: tag_value.simps tag_name.simps)

theorem failing_write_destination_witness:
  "MAP \<notin> HANDLED_TAGS
   \<and> write_token MAP [] ''xy'' = (Inl (NotImplemented ''Unimplemented Tag, MAP''), ''xy'')
   \<and> length ''h'' \<le> 1
   \<and> write_token STRING [PyStr ''h''] ''xy'' = (Inl InvalidPayload, ''xyS'')"
  using failing_write_destination [of MAP "[]" "''xy''" "''h''"]
  by (simp add: HANDLED_TAGS_def NOOP_TAGS_def VARINT_TAGS_def)

section \<open>Bytes that are no tag\<close>

text \<open>
  Claim C8. \<^verbatim>\<open>read_tag\<close>, and with it \<^verbatim>\<open>read_token\<close>, raises the lookup error on every
  byte that is the value of no member (for example 0x01); whenever either returns a tag,
  the stream began with that tag's byte.
\<close>

theorem read_tag_unmapped_byte:
  "((\<forall>t. tag_value t \<noteq> [c]) \<longrightarrow>
      read_tag (c # rest) = Inl InvalidTag \<and> read_token (c # rest) = Inl InvalidTag)
   \<and> (read_tag s = Inr (t, s') \<longrightarrow> s = tag_value t @ s')
   \<and> (read_token s = Inr ((t, p), s') \<longrightarrow> (\<exists>s1. s = tag_value t @ s1))"
proof (intro conjI impI)
  assume u: "\<forall>t. tag_value t \<noteq> [c]"
  show a: "read_tag (c # rest) = Inl InvalidTag"
    using call_unmapped [OF u] by (simp add: read_tag_def read_def)
  show "read_token (c # rest) = Inl InvalidTag"
    using a by (simp add: read_token_def)
next
  assume "read_tag s = Inr (t, s')"
  then show "s = tag_value t @ s'" by (rule read_tag_Inr)
next
  assume "read_token s = Inr ((t, p), s')"
  then obtain s1 where "read_tag s = Inr (t, s1)" using read_token_tag by blast
  then show "\<exists>s1. s = tag_value t @ s1" using read_tag_Inr by blast
qed

theorem read_tag_unmapped_byte_witness:
  "(\<forall>t. tag_value t \<noteq> [CHR 0x01])
   \<and> read_tag [CHR 0x01, CHR ''a''] = Inl InvalidTag
   \<and> read_token [CHR 0x01, CHR ''a''] = Inl InvalidTag
   \<and> read_tag ''Sxy'' = Inr (STRING, ''xy'') \<and> ''Sxy'' = tag_value STRING @ ''xy''
   \<and> read_token ''ox'' = Inr ((GENERATE_FRESH_OBJECT, PyNone), ''x'')
   \<and> (\<exists>s1. ''ox'' = tag_value GENERATE_FRESH_OBJECT @ s1)"
  using read_tag_unmapped_byte [of "CHR 0x01" "''a''" "''Sxy''" STRING "''xy''" PyNone]
    read_tag_unmapped_byte [of "CHR 0x01" "''a''" "''ox''" GENERATE_FRESH_OBJECT "''x''" PyNone]
    no_tag_0x01 read_tag_value [of STRING "''xy''"]
    read_tag_value [of GENERATE_FRESH_OBJECT "''x''"]
  by (simp add: read_token_def NOOP_TAGS_def)

end
